theory Spec2Isabelle
  imports Main
begin

section \<open>DorefaConv2d: a shallow embedding of the quantized 2D convolution layer\<close>

text \<open>
  The development follows \<^verbatim>\<open>tensorlayer/layers/convolution/dorefa_conv.py\<close>.
  The layer object is a record, the constructor arguments are the record it extends,
  and the methods \<^verbatim>\<open>__init__\<close>, \<^verbatim>\<open>build\<close> and \<^verbatim>\<open>forward\<close> are computations that
  pass the layer object along and either return or raise.
\<close>

subsection \<open>Exceptions and Python's expressions\<close>

text \<open>
  The exceptions the module can raise, by Python class, with the message where the
  module gives one. \<^verbatim>\<open>Exception\<close> and \<^verbatim>\<open>ValueError\<close> are raised by the module itself;
  \<^verbatim>\<open>IndexError\<close>, \<^verbatim>\<open>TypeError\<close> and \<^verbatim>\<open>AttributeError\<close> come from subscripting a
  sequence out of range, subscripting \<^verbatim>\<open>None\<close> and reading an attribute that was never
  assigned.
\<close>

datatype error =
    Exception string
  | ValueError string
  | IndexError
  | TypeError
  | AttributeError string

type_synonym 'a result = "error + 'a"

definition result_bind :: "'a result \<Rightarrow> ('a \<Rightarrow> 'b result) \<Rightarrow> 'b result" where
  "result_bind r f = (case r of Inl e \<Rightarrow> Inl e | Inr a \<Rightarrow> f a)"

text \<open>\<^verbatim>\<open>xs[i]\<close> on a list or tuple: a negative index counts from the end, and an index
  out of range raises.\<close>

definition subscript :: "'a list \<Rightarrow> int \<Rightarrow> 'a result" where
  "subscript xs i =
     (if 0 \<le> i \<and> i < int (length xs) then Inr (xs ! nat i)
      else if i < 0 \<and> - int (length xs) \<le> i then Inr (xs ! nat (int (length xs) + i))
      else Inl IndexError)"

text \<open>\<^verbatim>\<open>inputs_shape[i]\<close>: the constructor calls \<^verbatim>\<open>build(None)\<close>, and \<^verbatim>\<open>None\<close> is not
  subscriptable.\<close>

definition subscript_shape :: "int list option \<Rightarrow> int \<Rightarrow> int result" where
  "subscript_shape inputs_shape i =
     (case inputs_shape of None \<Rightarrow> Inl TypeError | Some shp \<Rightarrow> subscript shp i)"

text \<open>Truth value of \<^verbatim>\<open>self.in_channels\<close> in \<^verbatim>\<open>if self.in_channels:\<close>: \<^verbatim>\<open>None\<close> and
  \<^verbatim>\<open>0\<close> are false.\<close>

definition truthy :: "int option \<Rightarrow> bool" where
  "truthy v = (case v of None \<Rightarrow> False | Some c \<Rightarrow> c \<noteq> 0)"

subsection \<open>Methods as computations on the object\<close>

text \<open>
  A method body runs on the object \<open>self\<close> and either returns a value or raises; in both
  cases the object is left as the statements executed so far have made it.
\<close>

type_synonym ('s, 'a) meth = "'s \<Rightarrow> 'a result \<times> 's"

definition m_return :: "'a \<Rightarrow> ('s, 'a) meth" where
  "m_return a self = (Inr a, self)"

definition m_raise :: "error \<Rightarrow> ('s, 'a) meth" where
  "m_raise e self = (Inl e, self)"

definition m_bind :: "('s, 'a) meth \<Rightarrow> ('a \<Rightarrow> ('s, 'b) meth) \<Rightarrow> ('s, 'b) meth" where
  "m_bind m f self =
     (case m self of (Inl e, self') \<Rightarrow> (Inl e, self') | (Inr a, self') \<Rightarrow> f a self')"

text \<open>Evaluating an expression that reads the object.\<close>

definition m_eval :: "('s \<Rightarrow> 'a result) \<Rightarrow> ('s, 'a) meth" where
  "m_eval rhs self = (rhs self, self)"

text \<open>\<^verbatim>\<open>self.x = rhs\<close>: the right-hand side is evaluated first, and the attribute is
  stored only if that did not raise.\<close>

definition m_assign :: "('s \<Rightarrow> 'a result) \<Rightarrow> ('a \<Rightarrow> 's \<Rightarrow> 's) \<Rightarrow> ('s, unit) meth" where
  "m_assign rhs store self =
     (case rhs self of Inl e \<Rightarrow> (Inl e, self) | Inr v \<Rightarrow> (Inr (), store v self))"

definition m_if :: "('s \<Rightarrow> bool) \<Rightarrow> ('s, 'a) meth \<Rightarrow> ('s, 'a) meth \<Rightarrow> ('s, 'a) meth" where
  "m_if c t e self = (if c self then t self else e self)"

text \<open>A sequence of statements.\<close>

fun m_block :: "('s, unit) meth list \<Rightarrow> ('s, unit) meth" where
  "m_block [] = m_return ()"
| "m_block (c # cs) = m_bind c (\<lambda>_. m_block cs)"

text \<open>A method keeps an observation \<open>f\<close> of the object when \<open>f\<close> reads the same after
  the call as before it, whether the call returned or raised.\<close>

definition keeps :: "('s \<Rightarrow> 'c) \<Rightarrow> ('s, 'a) meth \<Rightarrow> bool" where
  "keeps f m = (\<forall>self. f (snd (m self)) = f self)"

subsection \<open>The layer object\<close>

text \<open>
  An activation function is a callable object: \<open>fn_call\<close> is what calling it computes,
  and \<open>fn_name\<close> is its \<^verbatim>\<open>__name__\<close> attribute, which a function or a lambda has and
  other callables (a \<^verbatim>\<open>functools.partial\<close>, an instance of a class with \<^verbatim>\<open>__call__\<close>)
  do not.
\<close>

record 't activation =
  fn_name :: "string option"
  fn_call :: "'t \<Rightarrow> 't"

text \<open>
  The keyword arguments of \<^verbatim>\<open>__init__\<close>, which it stores on the object under the same
  names. The type \<open>'t\<close> is the tensor type of the runtime; an initializer maps a shape
  to a tensor; \<^verbatim>\<open>act\<close> and \<^verbatim>\<open>b_init\<close> may be \<^verbatim>\<open>None\<close>, \<^verbatim>\<open>in_channels\<close> too.
\<close>

record 't config =
  bitW :: int
  bitA :: int
  n_filter :: int
  filter_size :: "int list"
  strides :: "int list"
  act :: "'t activation option"
  padding :: string
  use_gemm :: bool
  data_format :: string
  dilation_rate :: "int list"
  W_init :: "int list \<Rightarrow> 't"
  b_init :: "(int list \<Rightarrow> 't) option"
  in_channels :: "int option"
  name :: string

text \<open>
  The object: the stored arguments and the attributes the methods add. An identifier
  cannot start with an underscore, so \<^verbatim>\<open>_strides\<close>, \<^verbatim>\<open>_dilation_rate\<close> and \<^verbatim>\<open>_built\<close>
  are \<open>priv_strides\<close>, \<open>priv_dilation_rate\<close> and \<open>priv_built\<close>. An attribute that does
  not exist yet (\<^verbatim>\<open>pre_channel\<close>, \<^verbatim>\<open>filter_shape\<close>, \<^verbatim>\<open>W\<close>, \<^verbatim>\<open>b\<close> before \<^verbatim>\<open>build\<close>) is
  \<open>None\<close>. \<open>trainable_weights\<close> is the base class's list of registered parameters.
\<close>

record 't layer = "'t config" +
  priv_strides :: "int list"
  priv_dilation_rate :: "int list"
  pre_channel :: "int option"
  filter_shape :: "int list option"
  W :: "'t option"
  b :: "'t option"
  priv_built :: bool
  trainable_weights :: "(string \<times> int list \<times> 't) list"

text \<open>
  Modelled from the spec: the base class method \<^verbatim>\<open>_get_weights(name, shape, init)\<close> of
  \<^verbatim>\<open>tensorlayer.layers.core.Layer\<close> is not part of this module. By the spec it is the
  parameter-registration facility that allocates the tensor with the initializer over
  the shape, tracks it as a trainable parameter of the layer under the given name, and
  returns the tensor.
\<close>

definition get_weights ::
  "string \<Rightarrow> int list \<Rightarrow> (int list \<Rightarrow> 't) \<Rightarrow> ('t layer, 't) meth" where
  "get_weights var_name shape init self =
     (let weight = init shape
      in (Inr weight,
          self\<lparr>trainable_weights := trainable_weights self @ [(var_name, shape, weight)]\<rparr>))"

text \<open>Reading an attribute that \<^verbatim>\<open>build\<close> creates.\<close>

definition attribute :: "string \<Rightarrow> 'a option \<Rightarrow> 'a result" where
  "attribute attr v = (case v of None \<Rightarrow> Inl (AttributeError attr) | Some x \<Rightarrow> Inr x)"

subsection \<open>build\<close>

text \<open>\<^verbatim>\<open>[1, xs[0], xs[1], 1]\<close> and \<^verbatim>\<open>[1, 1, xs[0], xs[1]]\<close>, the subscripts evaluated left
  to right.\<close>

definition expand_last :: "int list \<Rightarrow> int list result" where
  "expand_last xs =
     result_bind (subscript xs 0) (\<lambda>x0.
     result_bind (subscript xs 1) (\<lambda>x1. Inr [1, x0, x1, 1]))"

definition expand_first :: "int list \<Rightarrow> int list result" where
  "expand_first xs =
     result_bind (subscript xs 0) (\<lambda>x0.
     result_bind (subscript xs 1) (\<lambda>x1. Inr [1, 1, x0, x1]))"

definition build :: "int list option \<Rightarrow> ('t layer, unit) meth" where
  "build inputs_shape = m_block [
     m_if (\<lambda>self. data_format self = ''channels_last'')
       (m_block [
          m_assign (\<lambda>self. Inr ''NHWC'') (\<lambda>v self. self\<lparr>data_format := v\<rparr>),
          m_if (\<lambda>self. truthy (in_channels self))
            (m_assign (\<lambda>self. Inr (in_channels self)) (\<lambda>v self. self\<lparr>pre_channel := v\<rparr>))
            (m_block [
               m_assign (\<lambda>self. subscript_shape inputs_shape (- 1))
                        (\<lambda>v self. self\<lparr>pre_channel := Some v\<rparr>),
               m_assign (\<lambda>self. Inr (pre_channel self)) (\<lambda>v self. self\<lparr>in_channels := v\<rparr>)]),
          m_assign (\<lambda>self. expand_last (priv_strides self))
                   (\<lambda>v self. self\<lparr>priv_strides := v\<rparr>),
          m_assign (\<lambda>self. expand_last (priv_dilation_rate self))
                   (\<lambda>v self. self\<lparr>priv_dilation_rate := v\<rparr>)])
       (m_if (\<lambda>self. data_format self = ''channels_first'')
          (m_block [
             m_assign (\<lambda>self. Inr ''NCHW'') (\<lambda>v self. self\<lparr>data_format := v\<rparr>),
             m_if (\<lambda>self. truthy (in_channels self))
               (m_assign (\<lambda>self. Inr (in_channels self)) (\<lambda>v self. self\<lparr>pre_channel := v\<rparr>))
               (m_block [
                  m_assign (\<lambda>self. subscript_shape inputs_shape 1)
                           (\<lambda>v self. self\<lparr>pre_channel := Some v\<rparr>),
                  m_assign (\<lambda>self. Inr (pre_channel self)) (\<lambda>v self. self\<lparr>in_channels := v\<rparr>)]),
             m_assign (\<lambda>self. expand_first (priv_strides self))
                      (\<lambda>v self. self\<lparr>priv_strides := v\<rparr>),
             m_assign (\<lambda>self. expand_first (priv_dilation_rate self))
                      (\<lambda>v self. self\<lparr>priv_dilation_rate := v\<rparr>)])
          (m_raise (Exception ''data_format should be either channels_last or channels_first''))),
     m_assign (\<lambda>self.
                 result_bind (subscript (filter_size self) 0) (\<lambda>f0.
                 result_bind (subscript (filter_size self) 1) (\<lambda>f1.
                 result_bind (attribute ''pre_channel'' (pre_channel self)) (\<lambda>c.
                 Inr [f0, f1, c, n_filter self]))))
              (\<lambda>v self. self\<lparr>filter_shape := Some v\<rparr>),
     m_bind (m_eval (\<lambda>self. attribute ''filter_shape'' (filter_shape self))) (\<lambda>shape.
     m_bind (m_eval (\<lambda>self. Inr (W_init self))) (\<lambda>init.
     m_bind (get_weights ''filters'' shape init) (\<lambda>weight.
     m_assign (\<lambda>self. Inr weight) (\<lambda>v self. self\<lparr>W := Some v\<rparr>)))),
     m_if (\<lambda>self. b_init self \<noteq> None)
       (m_bind (m_eval (\<lambda>self. Inr [n_filter self])) (\<lambda>shape.
        m_bind (m_eval (\<lambda>self. attribute ''b_init'' (b_init self))) (\<lambda>init.
        m_bind (get_weights ''biases'' shape init) (\<lambda>weight.
        m_assign (\<lambda>self. Inr weight) (\<lambda>v self. self\<lparr>b := Some v\<rparr>)))))
       (m_return ())]"

subsection \<open>The constructor\<close>

text \<open>
  The object after the assignments at the head of \<^verbatim>\<open>__init__\<close>: every argument is
  stored under its name, \<^verbatim>\<open>_strides\<close> and \<^verbatim>\<open>_dilation_rate\<close> start as copies of
  \<^verbatim>\<open>strides\<close> and \<^verbatim>\<open>dilation_rate\<close>, and the base class starts the object unbuilt with
  no registered parameter.
\<close>

definition fresh :: "'t config \<Rightarrow> 't layer" where
  "fresh args =
     \<lparr>bitW = bitW args, bitA = bitA args, n_filter = n_filter args,
      filter_size = filter_size args, strides = strides args, act = act args,
      padding = padding args, use_gemm = use_gemm args, data_format = data_format args,
      dilation_rate = dilation_rate args, W_init = W_init args, b_init = b_init args,
      in_channels = in_channels args, name = name args,
      priv_strides = strides args, priv_dilation_rate = dilation_rate args,
      pre_channel = None, filter_shape = None, W = None, b = None,
      priv_built = False, trainable_weights = []\<rparr>"

text \<open>
  The last argument of the log line,
  \<^verbatim>\<open>self.act.__name__ if self.act is not None else 'No Activation'\<close>: reading
  \<^verbatim>\<open>__name__\<close> on an activation that has none raises \<^verbatim>\<open>AttributeError\<close>.
\<close>

definition activation_name :: "'t activation option \<Rightarrow> string result" where
  "activation_name a =
     (case a of None \<Rightarrow> Inr ''No Activation''
      | Some f \<Rightarrow> attribute ''__name__'' (fn_name f))"

text \<open>
  The rest of \<^verbatim>\<open>__init__\<close>, in the order of the source: the eager build when
  \<^verbatim>\<open>in_channels\<close> is given, then the log line, then the \<^verbatim>\<open>use_gemm\<close> guard, then the
  check of \<^verbatim>\<open>len(strides)\<close>. The log line formats the name (a string), \<^verbatim>\<open>n_filter\<close> (an
  integer), \<^verbatim>\<open>str(filter_size)\<close>, \<^verbatim>\<open>str(strides)\<close>, the padding and the name of the
  activation; of these only the last can raise, and the message itself changes nothing
  on the object, so the statement is the evaluation of that argument.
\<close>

definition init :: "('t layer, unit) meth" where
  "init = m_block [
     m_if (\<lambda>self. truthy (in_channels self))
       (m_block [
          build None,
          m_assign (\<lambda>self. Inr True) (\<lambda>v self. self\<lparr>priv_built := v\<rparr>)])
       (m_return ()),
     m_bind (m_eval (\<lambda>self. activation_name (act self))) (\<lambda>message. m_return ()),
     m_if (\<lambda>self. use_gemm self)
       (m_raise (Exception ''TODO. The current version use tf.matmul for inferencing.''))
       (m_return ()),
     m_if (\<lambda>self. int (length (strides self)) \<noteq> 2)
       (m_raise (ValueError ''len(strides) should be 2.''))
       (m_return ())]"

text \<open>The expression \<^verbatim>\<open>DorefaConv2d(...)\<close>: the new object if \<^verbatim>\<open>__init__\<close> returns, the
  exception if it raises.\<close>

definition DorefaConv2d :: "'t config \<Rightarrow> 't layer result" where
  "DorefaConv2d args =
     (case init (fresh args) of (Inl e, self) \<Rightarrow> Inl e | (Inr u, self) \<Rightarrow> Inr self)"

subsection \<open>forward\<close>

text \<open>
  The primitives of the tensor runtime that \<^verbatim>\<open>forward\<close> calls are parameters of the
  model: \<^verbatim>\<open>cabs\<close>, \<^verbatim>\<open>quantize_active\<close> and \<^verbatim>\<open>quantize_weight\<close> are elementwise
  functions that return a new tensor; \<^verbatim>\<open>tf.nn.conv2d\<close> (input, filters, strides,
  padding, data_format, dilations, name) and \<^verbatim>\<open>tf.nn.bias_add\<close> (value, bias,
  data_format, name) return a new tensor or raise on operands that do not fit.
\<close>

record 't runtime =
  cabs :: "'t \<Rightarrow> 't"
  quantize_active :: "'t \<Rightarrow> int \<Rightarrow> 't"
  quantize_weight :: "'t \<Rightarrow> int \<Rightarrow> 't"
  conv2d :: "'t \<Rightarrow> 't \<Rightarrow> int list \<Rightarrow> string \<Rightarrow> string \<Rightarrow> int list \<Rightarrow> string \<Rightarrow> 't result"
  bias_add :: "'t \<Rightarrow> 't \<Rightarrow> string \<Rightarrow> string \<Rightarrow> 't result"

definition forward :: "'t runtime \<Rightarrow> 't \<Rightarrow> ('t layer, 't) meth" where
  "forward rt inputs =
     m_bind (m_eval (\<lambda>self. Inr (quantize_active rt (cabs rt inputs) (bitA self)))) (\<lambda>inputs.
     m_bind (m_eval (\<lambda>self.
               result_bind (attribute ''W'' (W self)) (\<lambda>w.
               Inr (quantize_weight rt w (bitW self))))) (\<lambda>W_q.
     m_bind (m_eval (\<lambda>self.
               conv2d rt inputs W_q (priv_strides self) (padding self) (data_format self)
                 (priv_dilation_rate self) (name self))) (\<lambda>outputs.
     m_bind (m_if (\<lambda>self. b_init self \<noteq> None)
               (m_eval (\<lambda>self.
                  result_bind (attribute ''b'' (b self)) (\<lambda>bias.
                  bias_add rt outputs bias (data_format self) ''bias_add'')))
               (m_return outputs)) (\<lambda>outputs.
     m_bind (m_if (\<lambda>self. act self \<noteq> None)
               (m_eval (\<lambda>self.
                  result_bind (attribute ''act'' (act self)) (\<lambda>f. Inr (fn_call f outputs))))
               (m_return outputs)) (\<lambda>outputs.
     m_return outputs)))))"

text \<open>Calling \<^verbatim>\<open>forward\<close> on one input after another, on the same object, whatever each
  call returned or raised.\<close>

fun forward_calls :: "'t runtime \<Rightarrow> 't list \<Rightarrow> 't layer \<Rightarrow> 't result list \<times> 't layer" where
  "forward_calls rt [] self = ([], self)"
| "forward_calls rt (x # xs) self =
     (case forward rt x self of (r, self') \<Rightarrow>
        (case forward_calls rt xs self' of (rs, self'') \<Rightarrow> (r # rs, self'')))"

subsection \<open>A runtime that records the operations, and the default arguments\<close>

text \<open>
  The properties below hold for every runtime. To run the methods on concrete inputs,
  tensors are taken to be the expressions that produced them, and the runtime that
  builds these expressions applies no arithmetic at all: each primitive returns the
  node that names it and its operands.
\<close>

datatype graph =
    Placeholder string
  | Initial string "int list"
  | Cabs graph
  | Quantize_active graph int
  | Quantize_weight graph int
  | Conv2d graph graph "int list" string string "int list" string
  | Bias_add graph graph string string

definition graph_runtime :: "graph runtime" where
  "graph_runtime =
     \<lparr>cabs = Cabs, quantize_active = Quantize_active, quantize_weight = Quantize_weight,
      conv2d = (\<lambda>input filters strides padding data_format dilations name.
                  Inr (Conv2d input filters strides padding data_format dilations name)),
      bias_add = (\<lambda>value bias data_format name. Inr (Bias_add value bias data_format name))\<rparr>"

text \<open>The default values of the keyword arguments of \<^verbatim>\<open>__init__\<close>; the two default
  initializers are \<^verbatim>\<open>truncated_normal(stddev=0.02)\<close> and \<^verbatim>\<open>constant(value=0.0)\<close>.\<close>

definition default_args :: "graph config" where
  "default_args =
     \<lparr>bitW = 1, bitA = 3, n_filter = 32, filter_size = [3, 3], strides = [1, 1], act = None,
      padding = ''SAME'', use_gemm = False, data_format = ''channels_last'',
      dilation_rate = [1, 1], W_init = Initial ''truncated_normal'',
      b_init = Some (Initial ''constant''), in_channels = None, name = ''dorefa_cnn2d''\<rparr>"

text \<open>The default layer, built for a batch of 8 images of 28 by 28 pixels and 3
  channels.\<close>

definition example_layer :: "graph layer" where
  "example_layer = snd (build (Some [8, 28, 28, 3]) (fresh default_args))"

section \<open>Properties\<close>

subsection \<open>Subscripts\<close>

lemma subscript_last:
  "subscript xs (- 1) = (if xs = [] then Inl IndexError else Inr (last xs))"
proof (cases "xs = []")
  case True
  then show ?thesis by (simp add: subscript_def)
next
  case False
  then have len: "1 \<le> length xs" by (cases xs) simp_all
  then have "nat (int (length xs) + - 1) = length xs - 1" by simp
  with False len show ?thesis by (simp add: subscript_def last_conv_nth)
qed

lemma subscript_nat:
  "subscript xs (int k) = (if k < length xs then Inr (xs ! k) else Inl IndexError)"
  by (simp add: subscript_def)

lemma subscript_0: "subscript xs 0 = (if 0 < length xs then Inr (xs ! 0) else Inl IndexError)"
  using subscript_nat[of xs 0] by simp

lemma subscript_1: "subscript xs 1 = (if 1 < length xs then Inr (xs ! 1) else Inl IndexError)"
  using subscript_nat[of xs 1] by simp

lemma subscript_2: "subscript xs 2 = (if 2 < length xs then Inr (xs ! 2) else Inl IndexError)"
  using subscript_nat[of xs 2] by simp

subsection \<open>Unfolding the methods\<close>

lemmas m_defs = m_if_def m_bind_def m_assign_def m_eval_def m_return_def m_raise_def

lemmas build_defs = build_def m_defs get_weights_def expand_last_def expand_first_def
  result_bind_def subscript_last subscript_0 subscript_1 subscript_shape_def attribute_def
  truthy_def Let_def

lemma fresh_sel:
  "use_gemm (fresh args) = use_gemm args"
  "strides (fresh args) = strides args"
  "in_channels (fresh args) = in_channels args"
  "data_format (fresh args) = data_format args"
  "act (fresh args) = act args"
  by (simp_all add: fresh_def)

text \<open>\<^verbatim>\<open>build\<close> raises on an unknown \<^verbatim>\<open>data_format\<close> before it has assigned anything.\<close>

lemma build_invalid_format:
  "data_format L \<noteq> ''channels_last'' \<Longrightarrow> data_format L \<noteq> ''channels_first'' \<Longrightarrow>
   build shp L =
     (Inl (Exception ''data_format should be either channels_last or channels_first''), L)"
  by (simp add: build_def m_defs)

text \<open>What the statements keep.\<close>

lemma keeps_return: "keeps f (m_return a)"
  by (simp add: keeps_def m_return_def)

lemma keeps_raise: "keeps f (m_raise e)"
  by (simp add: keeps_def m_raise_def)

lemma keeps_eval: "keeps f (m_eval rhs)"
  by (simp add: keeps_def m_eval_def)

lemma keeps_assign: "(\<And>v self. f (store v self) = f self) \<Longrightarrow> keeps f (m_assign rhs store)"
  by (simp add: keeps_def m_assign_def split: sum.split)

lemma keeps_if: "keeps f t \<Longrightarrow> keeps f e \<Longrightarrow> keeps f (m_if c t e)"
  by (simp add: keeps_def m_if_def)

lemma keeps_bind: "keeps f m \<Longrightarrow> (\<And>a. keeps f (k a)) \<Longrightarrow> keeps f (m_bind m k)"
proof -
  assume m: "keeps f m" and k: "\<And>a. keeps f (k a)"
  show ?thesis
    unfolding keeps_def
  proof
    fix self
    obtain r self' where ms: "m self = (r, self')" by (cases "m self")
    have f': "f self' = f self" using m ms by (auto simp: keeps_def dest: spec[of _ self])
    show "f (snd (m_bind m k self)) = f self"
    proof (cases r)
      case (Inl e)
      then show ?thesis by (simp add: m_bind_def ms f')
    next
      case (Inr a)
      have "f (snd (k a self')) = f self'" using k[of a] by (simp add: keeps_def)
      with Inr show ?thesis by (simp add: m_bind_def ms f')
    qed
  qed
qed

lemma keeps_block_Nil: "keeps f (m_block [])"
  by (simp add: keeps_return)

lemma keeps_block_Cons: "keeps f c \<Longrightarrow> keeps f (m_block cs) \<Longrightarrow> keeps f (m_block (c # cs))"
  by (simp add: keeps_bind)

lemma keeps_get_weights:
  "(\<And>v self. f (self\<lparr>trainable_weights := v\<rparr>) = f self) \<Longrightarrow>
   keeps f (get_weights var_name shape ini)"
  by (simp add: keeps_def get_weights_def Let_def)

lemmas keeps_intros = keeps_return keeps_raise keeps_eval keeps_assign keeps_if keeps_bind
  keeps_block_Nil keeps_block_Cons keeps_get_weights

text \<open>\<^verbatim>\<open>build\<close> keeps whatever does not depend on the nine attributes it assigns.\<close>

lemma keeps_build:
  assumes "\<And>v self. f (self\<lparr>data_format := v\<rparr>) = f self"
    and "\<And>v self. f (self\<lparr>pre_channel := v\<rparr>) = f self"
    and "\<And>v self. f (self\<lparr>in_channels := v\<rparr>) = f self"
    and "\<And>v self. f (self\<lparr>priv_strides := v\<rparr>) = f self"
    and "\<And>v self. f (self\<lparr>priv_dilation_rate := v\<rparr>) = f self"
    and "\<And>v self. f (self\<lparr>filter_shape := v\<rparr>) = f self"
    and "\<And>v self. f (self\<lparr>W := v\<rparr>) = f self"
    and "\<And>v self. f (self\<lparr>b := v\<rparr>) = f self"
    and "\<And>v self. f (self\<lparr>trainable_weights := v\<rparr>) = f self"
  shows "keeps f (build shp)"
  unfolding build_def by (intro keeps_intros) (simp_all add: assms)

text \<open>The attributes \<^verbatim>\<open>build\<close> never assigns, whether it returns or raises.\<close>

lemma keepsD: "keeps f m \<Longrightarrow> m self = (r, self') \<Longrightarrow> f self' = f self"
  by (auto simp: keeps_def dest: spec[of _ self])

lemma build_frame:
  assumes "build shp L = (r, L')"
  shows "bitW L' = bitW L" "bitA L' = bitA L" "n_filter L' = n_filter L"
    "filter_size L' = filter_size L" "strides L' = strides L" "act L' = act L"
    "padding L' = padding L" "use_gemm L' = use_gemm L"
    "dilation_rate L' = dilation_rate L" "W_init L' = W_init L" "b_init L' = b_init L"
    "name L' = name L" "priv_built L' = priv_built L"
proof -
  have field: "f L' = f L" if "keeps f (build shp)" for f :: "'a layer \<Rightarrow> 'c"
    using that assms by (rule keepsD)
  show "bitW L' = bitW L" by (rule field, rule keeps_build) simp_all
  show "bitA L' = bitA L" by (rule field, rule keeps_build) simp_all
  show "n_filter L' = n_filter L" by (rule field, rule keeps_build) simp_all
  show "filter_size L' = filter_size L" by (rule field, rule keeps_build) simp_all
  show "strides L' = strides L" by (rule field, rule keeps_build) simp_all
  show "act L' = act L" by (rule field, rule keeps_build) simp_all
  show "padding L' = padding L" by (rule field, rule keeps_build) simp_all
  show "use_gemm L' = use_gemm L" by (rule field, rule keeps_build) simp_all
  show "dilation_rate L' = dilation_rate L" by (rule field, rule keeps_build) simp_all
  show "W_init L' = W_init L" by (rule field, rule keeps_build) simp_all
  show "b_init L' = b_init L" by (rule field, rule keeps_build) simp_all
  show "name L' = name L" by (rule field, rule keeps_build) simp_all
  show "priv_built L' = priv_built L" by (rule field, rule keeps_build) simp_all
qed

lemma build_returns_format:
  "build shp L = (Inr (), L') \<Longrightarrow> data_format L' = ''NHWC'' \<or> data_format L' = ''NCHW''"
  by (auto simp: build_def m_defs get_weights_def Let_def
      split: if_splits sum.splits prod.splits option.splits)

text \<open>The outcomes of \<^verbatim>\<open>__init__\<close>, in the order in which the source reaches them.\<close>

lemma init_cases:
  "init (fresh args) =
     (if truthy (in_channels args) \<and> fst (build None (fresh args)) \<noteq> Inr ()
      then build None (fresh args)
      else (case activation_name (act args) of
              Inl e \<Rightarrow> Inl e
            | Inr message \<Rightarrow>
                if use_gemm args
                then Inl (Exception ''TODO. The current version use tf.matmul for inferencing.'')
                else if length (strides args) \<noteq> 2
                then Inl (ValueError ''len(strides) should be 2.'')
                else Inr (),
            if truthy (in_channels args)
            then (snd (build None (fresh args)))\<lparr>priv_built := True\<rparr> else fresh args))"
proof -
  obtain r L' where bl: "build None (fresh args) = (r, L')"
    by (cases "build None (fresh args)")
  have fr: "use_gemm L' = use_gemm args" "strides L' = strides args" "act L' = act args"
    using build_frame(8)[OF bl] build_frame(5)[OF bl] build_frame(6)[OF bl]
    by (simp_all add: fresh_sel)
  show ?thesis
    by (cases r; cases "activation_name (act args)")
       (simp_all add: init_def m_defs bl fr fresh_sel)
qed

text \<open>When the constructor fails, and with which error once the eager build (if it is
  run) and the log line have completed.\<close>

lemma DorefaConv2d_cases:
  assumes "\<not> truthy (in_channels args) \<or> fst (build None (fresh args)) = Inr ()"
    and "activation_name (act args) = Inr message"
  shows "DorefaConv2d args =
     (if use_gemm args
      then Inl (Exception ''TODO. The current version use tf.matmul for inferencing.'')
      else if length (strides args) \<noteq> 2
      then Inl (ValueError ''len(strides) should be 2.'')
      else Inr (if truthy (in_channels args)
                then (snd (build None (fresh args)))\<lparr>priv_built := True\<rparr> else fresh args))"
  using assms by (auto simp: DorefaConv2d_def init_cases)

lemma DorefaConv2d_fails:
  "use_gemm args \<or> length (strides args) \<noteq> 2 \<Longrightarrow> \<exists>e. DorefaConv2d args = Inl e"
  by (cases "build None (fresh args)"; cases "fst (build None (fresh args))";
      cases "activation_name (act args)")
     (auto simp: DorefaConv2d_def init_cases)

text \<open>An activation without \<^verbatim>\<open>__name__\<close> stops the constructor at the log line, before
  both guards.\<close>

lemma DorefaConv2d_unnamed_activation:
  "DorefaConv2d (default_args\<lparr>use_gemm := True, strides := [1, 1, 1],
                               act := Some \<lparr>fn_name = None, fn_call = Cabs\<rparr>\<rparr>) =
     Inl (AttributeError ''__name__'')"
  by (simp add: DorefaConv2d_def init_cases default_args_def truthy_def activation_name_def
      attribute_def)

text \<open>\<^verbatim>\<open>forward\<close> assigns no attribute.\<close>

lemma forward_state: "snd (forward rt x L) = L"
  by (simp add: forward_def m_defs split: sum.splits prod.splits)

text \<open>The example layer, attribute by attribute.\<close>

lemma build_example:
  "build (Some [8, 28, 28, 3]) (fresh default_args) = (Inr (),
     \<lparr>bitW = 1, bitA = 3, n_filter = 32, filter_size = [3, 3],
      strides = [1, 1], act = None, padding = ''SAME'', use_gemm = False,
      data_format = ''NHWC'', dilation_rate = [1, 1], W_init = Initial ''truncated_normal'',
      b_init = Some (Initial ''constant''), in_channels = Some 3, name = ''dorefa_cnn2d'',
      priv_strides = [1, 1, 1, 1], priv_dilation_rate = [1, 1, 1, 1],
      pre_channel = Some 3, filter_shape = Some [3, 3, 3, 32],
      W = Some (Initial ''truncated_normal'' [3, 3, 3, 32]),
      b = Some (Initial ''constant'' [32]), priv_built = False,
      trainable_weights =
        [(''filters'', [3, 3, 3, 32], Initial ''truncated_normal'' [3, 3, 3, 32]),
         (''biases'', [32], Initial ''constant'' [32])]\<rparr>)"
  by (simp add: build_defs fresh_def default_args_def)

text \<open>The value \<^verbatim>\<open>forward\<close> returns on a layer that has its filter tensor.\<close>

lemma forward_result:
  "W L = Some w \<Longrightarrow>
   fst (forward rt x L) =
     result_bind
       (conv2d rt (quantize_active rt (cabs rt x) (bitA L)) (quantize_weight rt w (bitW L))
          (priv_strides L) (padding L) (data_format L) (priv_dilation_rate L) (name L))
       (\<lambda>outputs.
          result_bind
            (if b_init L \<noteq> None
             then result_bind (attribute ''b'' (b L))
                    (\<lambda>bias. bias_add rt outputs bias (data_format L) ''bias_add'')
             else Inr outputs)
            (\<lambda>outputs. Inr (case act L of None \<Rightarrow> outputs | Some f \<Rightarrow> fn_call f outputs)))"
  by (simp add: forward_def m_defs result_bind_def attribute_def
      split: sum.splits prod.splits option.splits)

text \<open>The parameters a completed \<^verbatim>\<open>build\<close> has allocated and registered.\<close>

lemma build_returns_params:
  "build shp L = (Inr (), L') \<Longrightarrow>
   \<exists>shape. filter_shape L' = Some shape \<and> W L' = Some (W_init L shape) \<and>
     (case b_init L of
        None \<Rightarrow>
          b L' = b L \<and>
          trainable_weights L' = trainable_weights L @ [(''filters'', shape, W_init L shape)]
      | Some bi \<Rightarrow>
          b L' = Some (bi [n_filter L]) \<and>
          trainable_weights L' =
            trainable_weights L @
              [(''filters'', shape, W_init L shape),
               (''biases'', [n_filter L], bi [n_filter L])])"
  by (auto simp: build_defs split: if_splits sum.splits prod.splits option.splits)

text \<open>The resolved forms a completed \<^verbatim>\<open>build\<close> leaves on the object.\<close>

lemma build_returns_shapes:
  "build shp L = (Inr (), L') \<Longrightarrow>
   length (priv_strides L') = 4 \<and> length (priv_dilation_rate L') = 4 \<and>
   pre_channel L' \<noteq> None \<and> in_channels L' = pre_channel L'"
  by (auto simp: build_defs split: if_splits sum.splits prod.splits option.splits)

section \<open>The claims\<close>

subsection \<open>forward\<close>

text \<open>
  C1. For every input tensor, the value passed as the activation operand of the
  convolution in \<^verbatim>\<open>forward\<close> is \<^verbatim>\<open>quantize_active(cabs(inputs), bitA)\<close>: the clipped
  absolute value is taken first and quantized to \<open>bitA\<close> bits second. Stated for a layer
  that has its filter tensor, any runtime and any convolution primitive \<open>conv\<close> put in
  its place: the value of \<^verbatim>\<open>forward\<close> is what follows the convolution (\<open>post\<close>, the same
  for every \<open>conv\<close>) applied to \<open>conv\<close> at that activation operand, the quantized filter
  and the layer's resolved strides, padding, data format, dilations and name.
\<close>

theorem forward_conv_activation_operand:
  "W L = Some w \<Longrightarrow>
   \<exists>post. \<forall>conv.
     fst (forward (rt\<lparr>conv2d := conv\<rparr>) x L) =
       result_bind
         (conv (quantize_active rt (cabs rt x) (bitA L)) (quantize_weight rt w (bitW L))
            (priv_strides L) (padding L) (data_format L) (priv_dilation_rate L) (name L))
         post"
proof -
  assume w: "W L = Some w"
  let ?post = "\<lambda>outputs.
     result_bind
       (if b_init L \<noteq> None
        then result_bind (attribute ''b'' (b L))
               (\<lambda>bias. bias_add rt outputs bias (data_format L) ''bias_add'')
        else Inr outputs)
       (\<lambda>outputs. Inr (case act L of None \<Rightarrow> outputs | Some f \<Rightarrow> fn_call f outputs))"
  have "\<forall>conv.
     fst (forward (rt\<lparr>conv2d := conv\<rparr>) x L) =
       result_bind
         (conv (quantize_active rt (cabs rt x) (bitA L)) (quantize_weight rt w (bitW L))
            (priv_strides L) (padding L) (data_format L) (priv_dilation_rate L) (name L))
         ?post"
  proof
    fix conv
    show "fst (forward (rt\<lparr>conv2d := conv\<rparr>) x L) =
       result_bind
         (conv (quantize_active rt (cabs rt x) (bitA L)) (quantize_weight rt w (bitW L))
            (priv_strides L) (padding L) (data_format L) (priv_dilation_rate L) (name L))
         ?post"
      using forward_result[OF w, of "rt\<lparr>conv2d := conv\<rparr>" x] by (simp cong: if_cong)
  qed
  then show ?thesis by (rule exI[where x = ?post])
qed

theorem forward_conv_activation_operand_witness:
  "W example_layer = Some (Initial ''truncated_normal'' [3, 3, 3, 32]) \<and>
   (\<exists>post. \<forall>conv.
      fst (forward (graph_runtime\<lparr>conv2d := conv\<rparr>) (Placeholder ''x'') example_layer) =
        result_bind
          (conv (Quantize_active (Cabs (Placeholder ''x'')) 3)
             (Quantize_weight (Initial ''truncated_normal'' [3, 3, 3, 32]) 1)
             [1, 1, 1, 1] ''SAME'' ''NHWC'' [1, 1, 1, 1] ''dorefa_cnn2d'')
          post) \<and>
   Quantize_active (Cabs (Placeholder ''x'')) 3 \<noteq> Cabs (Quantize_active (Placeholder ''x'') 3)"
  using forward_conv_activation_operand
    [of example_layer "Initial ''truncated_normal'' [3, 3, 3, 32]" graph_runtime "Placeholder ''x''"]
  by (simp add: example_layer_def build_example graph_runtime_def)

text \<open>
  C3. \<^verbatim>\<open>forward\<close> mutates no layer state: after any number of calls, on any inputs
  and whether a call returned or raised, the layer is the one before the calls, so
  the stored full-precision filter tensor \<open>W\<close> and the bias tensor \<open>b\<close> are unchanged;
  the quantized filter is a value local to the call.
\<close>

theorem forward_calls_keep_layer:
  "forward_calls rt xs L = (rs, L') \<Longrightarrow>
   L' = L \<and> W L' = W L \<and> b L' = b L \<and> length rs = length xs"
proof (induction xs arbitrary: rs L')
  case Nil
  then show ?case by simp
next
  case (Cons x xs)
  obtain r where r: "forward rt x L = (r, L)"
    using forward_state[of rt x L] by (cases "forward rt x L") simp
  obtain rs' L'' where rs': "forward_calls rt xs L = (rs', L'')"
    by (cases "forward_calls rt xs L")
  from Cons.IH[OF rs'] have "L'' = L" "length rs' = length xs" by simp_all
  with Cons.prems r rs' show ?case by auto
qed

theorem forward_calls_keep_layer_witness:
  "forward_calls graph_runtime [Placeholder ''x'', Placeholder ''y''] example_layer =
     ([Inr (Bias_add
              (Conv2d (Quantize_active (Cabs (Placeholder ''x'')) 3)
                 (Quantize_weight (Initial ''truncated_normal'' [3, 3, 3, 32]) 1)
                 [1, 1, 1, 1] ''SAME'' ''NHWC'' [1, 1, 1, 1] ''dorefa_cnn2d'')
              (Initial ''constant'' [32]) ''NHWC'' ''bias_add''),
       Inr (Bias_add
              (Conv2d (Quantize_active (Cabs (Placeholder ''y'')) 3)
                 (Quantize_weight (Initial ''truncated_normal'' [3, 3, 3, 32]) 1)
                 [1, 1, 1, 1] ''SAME'' ''NHWC'' [1, 1, 1, 1] ''dorefa_cnn2d'')
              (Initial ''constant'' [32]) ''NHWC'' ''bias_add'')],
      example_layer) \<and>
   W example_layer = Some (Initial ''truncated_normal'' [3, 3, 3, 32]) \<and>
   b example_layer = Some (Initial ''constant'' [32])"
proof -
  obtain rs L' where run:
    "forward_calls graph_runtime [Placeholder ''x'', Placeholder ''y''] example_layer = (rs, L')"
    by (cases "forward_calls graph_runtime [Placeholder ''x'', Placeholder ''y''] example_layer")
  from forward_calls_keep_layer[OF run] have same: "L' = example_layer" by simp
  have "rs = fst (forward_calls graph_runtime [Placeholder ''x'', Placeholder ''y''] example_layer)"
    using run by simp
  also have "\<dots> =
     [Inr (Bias_add
              (Conv2d (Quantize_active (Cabs (Placeholder ''x'')) 3)
                 (Quantize_weight (Initial ''truncated_normal'' [3, 3, 3, 32]) 1)
                 [1, 1, 1, 1] ''SAME'' ''NHWC'' [1, 1, 1, 1] ''dorefa_cnn2d'')
              (Initial ''constant'' [32]) ''NHWC'' ''bias_add''),
       Inr (Bias_add
              (Conv2d (Quantize_active (Cabs (Placeholder ''y'')) 3)
                 (Quantize_weight (Initial ''truncated_normal'' [3, 3, 3, 32]) 1)
                 [1, 1, 1, 1] ''SAME'' ''NHWC'' [1, 1, 1, 1] ''dorefa_cnn2d'')
              (Initial ''constant'' [32]) ''NHWC'' ''bias_add'')]"
    by (simp add: example_layer_def build_example graph_runtime_def forward_def m_defs
        result_bind_def attribute_def)
  finally show ?thesis
    using run same by (simp add: example_layer_def build_example)
qed

subsection \<open>build\<close>

text \<open>
  C2. \<^verbatim>\<open>build\<close> expands the 2-element strides and dilation rate (which \<^verbatim>\<open>__init__\<close>
  stores in \<^verbatim>\<open>_strides\<close> and \<^verbatim>\<open>_dilation_rate\<close>) into 4-element forms with 1 at the
  batch and channel axes: \<open>[1, h, w, 1]\<close> for \<^verbatim>\<open>channels_last\<close> and \<open>[1, 1, h, w]\<close> for
  \<^verbatim>\<open>channels_first\<close>, by the same rule for both. The public attributes \<^verbatim>\<open>strides\<close> and
  \<^verbatim>\<open>dilation_rate\<close> keep the 2-element forms.
\<close>

theorem build_expands_strides_dilation:
  "build shp L = (Inr (), L') \<Longrightarrow>
   priv_strides L = [sh, sw] \<Longrightarrow> priv_dilation_rate L = [dh, dw] \<Longrightarrow>
   (data_format L = ''channels_last'' \<longrightarrow>
      priv_strides L' = [1, sh, sw, 1] \<and> priv_dilation_rate L' = [1, dh, dw, 1]) \<and>
   (data_format L = ''channels_first'' \<longrightarrow>
      priv_strides L' = [1, 1, sh, sw] \<and> priv_dilation_rate L' = [1, 1, dh, dw]) \<and>
   strides L' = strides L \<and> dilation_rate L' = dilation_rate L"
proof -
  assume bl: "build shp L = (Inr (), L')"
    and s: "priv_strides L = [sh, sw]" and d: "priv_dilation_rate L = [dh, dw]"
  have "(data_format L = ''channels_last'' \<longrightarrow>
      priv_strides L' = [1, sh, sw, 1] \<and> priv_dilation_rate L' = [1, dh, dw, 1]) \<and>
   (data_format L = ''channels_first'' \<longrightarrow>
      priv_strides L' = [1, 1, sh, sw] \<and> priv_dilation_rate L' = [1, 1, dh, dw])"
    using bl s d
    by (auto simp: build_defs split: if_splits sum.splits prod.splits option.splits)
  then show ?thesis
    using build_frame(5)[OF bl] build_frame(9)[OF bl] by simp
qed

theorem build_expands_strides_dilation_witness:
  "(\<exists>L'. build (Some [8, 28, 28, 3])
           (fresh (default_args\<lparr>strides := [2, 3], dilation_rate := [4, 5]\<rparr>)) = (Inr (), L') \<and>
         priv_strides L' = [1, 2, 3, 1] \<and> priv_dilation_rate L' = [1, 4, 5, 1] \<and>
         strides L' = [2, 3] \<and> dilation_rate L' = [4, 5]) \<and>
   (\<exists>L'. build (Some [8, 3, 28, 28])
           (fresh (default_args\<lparr>strides := [2, 3], dilation_rate := [4, 5],
                                data_format := ''channels_first''\<rparr>)) = (Inr (), L') \<and>
         priv_strides L' = [1, 1, 2, 3] \<and> priv_dilation_rate L' = [1, 1, 4, 5] \<and>
         strides L' = [2, 3] \<and> dilation_rate L' = [4, 5])"
proof -
  let ?last = "fresh (default_args\<lparr>strides := [2, 3], dilation_rate := [4, 5]\<rparr>)"
  let ?first = "fresh (default_args\<lparr>strides := [2, 3], dilation_rate := [4, 5],
                                    data_format := ''channels_first''\<rparr>)"
  obtain A where A: "build (Some [8, 28, 28, 3]) ?last = (Inr (), A)"
    by (simp add: build_defs fresh_def default_args_def)
  obtain B where B: "build (Some [8, 3, 28, 28]) ?first = (Inr (), B)"
    by (simp add: build_defs fresh_def default_args_def)
  have "priv_strides A = [1, 2, 3, 1] \<and> priv_dilation_rate A = [1, 4, 5, 1] \<and>
        strides A = [2, 3] \<and> dilation_rate A = [4, 5]"
    using build_expands_strides_dilation[OF A, of 2 3 4 5]
    by (simp add: fresh_def default_args_def)
  moreover have "priv_strides B = [1, 1, 2, 3] \<and> priv_dilation_rate B = [1, 1, 4, 5] \<and>
        strides B = [2, 3] \<and> dilation_rate B = [4, 5]"
    using build_expands_strides_dilation[OF B, of 2 3 4 5]
    by (simp add: fresh_def default_args_def)
  ultimately show ?thesis using A B by blast
qed

text \<open>
  C6. Whenever \<^verbatim>\<open>data_format\<close> is neither \<^verbatim>\<open>channels_last\<close> nor \<^verbatim>\<open>channels_first\<close>,
  \<^verbatim>\<open>build\<close> fails with the configuration error of the module, the exception with the
  message "data_format should be either channels_last or channels_first", whatever the
  input shape; the layer is as it was.
\<close>

theorem build_rejects_data_format:
  "data_format L \<noteq> ''channels_last'' \<Longrightarrow> data_format L \<noteq> ''channels_first'' \<Longrightarrow>
   build shp L =
     (Inl (Exception ''data_format should be either channels_last or channels_first''), L)"
  by (rule build_invalid_format)

theorem build_rejects_data_format_witness:
  "data_format (fresh (default_args\<lparr>data_format := ''channels_middle''\<rparr>)) \<noteq> ''channels_last'' \<and>
   data_format (fresh (default_args\<lparr>data_format := ''channels_middle''\<rparr>)) \<noteq> ''channels_first'' \<and>
   build (Some [8, 28, 28, 3]) (fresh (default_args\<lparr>data_format := ''channels_middle''\<rparr>)) =
     (Inl (Exception ''data_format should be either channels_last or channels_first''),
      fresh (default_args\<lparr>data_format := ''channels_middle''\<rparr>))"
  using build_rejects_data_format
    [of "fresh (default_args\<lparr>data_format := ''channels_middle''\<rparr>)" "Some [8, 28, 28, 3]"]
  by (simp add: fresh_def default_args_def)

text \<open>
  C10. Once \<^verbatim>\<open>build\<close> has completed on a layer, every later call of \<^verbatim>\<open>build\<close> on it
  raises the invalid-\<^verbatim>\<open>data_format\<close> error, whatever the input shape: the first call
  has rewritten \<^verbatim>\<open>data_format\<close> to \<^verbatim>\<open>NHWC\<close> or \<^verbatim>\<open>NCHW\<close>, which the guard of \<^verbatim>\<open>build\<close>
  does not accept. The failed call leaves the layer as the first call made it.
\<close>

theorem build_twice_raises:
  "build shp L = (Inr (), L') \<Longrightarrow>
   build shp' L' =
     (Inl (Exception ''data_format should be either channels_last or channels_first''), L')"
proof -
  assume "build shp L = (Inr (), L')"
  then have "data_format L' = ''NHWC'' \<or> data_format L' = ''NCHW''"
    by (rule build_returns_format)
  then show ?thesis by (auto intro: build_invalid_format)
qed

theorem build_twice_raises_witness:
  "build (Some [8, 28, 28, 3]) (fresh default_args) = (Inr (), example_layer) \<and>
   build (Some [8, 28, 28, 3]) example_layer =
     (Inl (Exception ''data_format should be either channels_last or channels_first''),
      example_layer)"
proof -
  have first: "build (Some [8, 28, 28, 3]) (fresh default_args) = (Inr (), example_layer)"
    by (simp add: example_layer_def build_example)
  from build_twice_raises[OF first, of "Some [8, 28, 28, 3]"] first show ?thesis by simp
qed

text \<open>
  C8. The resolved input-channel count (\<^verbatim>\<open>pre_channel\<close>, which is also the third entry
  of the filter shape and the value of \<^verbatim>\<open>in_channels\<close> after the call) is the configured
  \<^verbatim>\<open>in_channels\<close> when one was supplied; otherwise it is read from the input shape, at the
  last axis for \<^verbatim>\<open>channels_last\<close> and at index 1 for \<^verbatim>\<open>channels_first\<close>. The source
  tests \<^verbatim>\<open>in_channels\<close> by its truth value, so a supplied value is a non-zero one (the
  number of input channels is positive), and \<^verbatim>\<open>None\<close> and 0 both count as not supplied.
\<close>

theorem build_resolves_in_channels:
  "build shp L = (Inr (), L') \<Longrightarrow>
   (\<forall>c. in_channels L = Some c \<and> c \<noteq> 0 \<longrightarrow> pre_channel L' = Some c) \<and>
   ((in_channels L = None \<or> in_channels L = Some 0) \<and> data_format L = ''channels_last'' \<longrightarrow>
      (\<exists>s. shp = Some s \<and> s \<noteq> [] \<and> pre_channel L' = Some (last s))) \<and>
   ((in_channels L = None \<or> in_channels L = Some 0) \<and> data_format L = ''channels_first'' \<longrightarrow>
      (\<exists>s. shp = Some s \<and> 1 < length s \<and> pre_channel L' = Some (s ! 1))) \<and>
   in_channels L' = pre_channel L' \<and>
   (\<exists>c. pre_channel L' = Some c \<and>
        filter_shape L' = Some [filter_size L ! 0, filter_size L ! 1, c, n_filter L])"
  by (auto simp: build_defs split: if_splits sum.splits prod.splits option.splits)

theorem build_resolves_in_channels_witness:
  "(\<exists>L'. build None (fresh (default_args\<lparr>in_channels := Some 5\<rparr>)) = (Inr (), L') \<and>
         pre_channel L' = Some 5 \<and> filter_shape L' = Some [3, 3, 5, 32]) \<and>
   (\<exists>L'. build (Some [8, 28, 28, 3]) (fresh default_args) = (Inr (), L') \<and>
         pre_channel L' = Some 3 \<and> filter_shape L' = Some [3, 3, 3, 32]) \<and>
   (\<exists>L'. build (Some [8, 7, 28, 28])
           (fresh (default_args\<lparr>data_format := ''channels_first''\<rparr>)) = (Inr (), L') \<and>
         pre_channel L' = Some 7 \<and> filter_shape L' = Some [3, 3, 7, 32])"
proof -
  obtain A where A: "build None (fresh (default_args\<lparr>in_channels := Some 5\<rparr>)) = (Inr (), A)"
    by (simp add: build_defs fresh_def default_args_def)
  obtain B where B: "build (Some [8, 28, 28, 3]) (fresh default_args) = (Inr (), B)"
    by (simp add: build_example)
  obtain C where C: "build (Some [8, 7, 28, 28])
      (fresh (default_args\<lparr>data_format := ''channels_first''\<rparr>)) = (Inr (), C)"
    by (simp add: build_defs fresh_def default_args_def)
  have "pre_channel A = Some 5 \<and> filter_shape A = Some [3, 3, 5, 32]"
    using build_resolves_in_channels[OF A] by (auto simp: fresh_def default_args_def)
  moreover have "pre_channel B = Some 3 \<and> filter_shape B = Some [3, 3, 3, 32]"
    using build_resolves_in_channels[OF B] by (auto simp: fresh_def default_args_def)
  moreover have "pre_channel C = Some 7 \<and> filter_shape C = Some [3, 3, 7, 32]"
    using build_resolves_in_channels[OF C] by (auto simp: fresh_def default_args_def)
  ultimately show ?thesis using A B C by blast
qed

text \<open>
  C7. When \<^verbatim>\<open>b_init\<close> is \<^verbatim>\<open>None\<close>, \<^verbatim>\<open>build\<close> allocates no bias tensor (\<open>b\<close> is left as it
  was and only the filter is registered) and \<^verbatim>\<open>forward\<close> applies no bias-add: its value
  is the convolution followed by the activation only. When \<^verbatim>\<open>b_init\<close> is present,
  \<^verbatim>\<open>build\<close> allocates the bias tensor with \<^verbatim>\<open>b_init\<close> over the shape \<open>[n_filter]\<close>,
  registers it as the trainable parameter "biases", and \<^verbatim>\<open>forward\<close> adds it to the
  output of the convolution, before the activation.
\<close>

theorem build_bias_tensor:
  "build shp L = (Inr (), L') \<Longrightarrow>
   (b_init L = None \<longrightarrow>
      b L' = b L \<and>
      (\<exists>shape. trainable_weights L' =
                 trainable_weights L @ [(''filters'', shape, W_init L shape)]) \<and>
      (\<forall>rt x. \<exists>w. W L' = Some w \<and>
         fst (forward rt x L') =
           result_bind
             (conv2d rt (quantize_active rt (cabs rt x) (bitA L'))
                (quantize_weight rt w (bitW L'))
                (priv_strides L') (padding L') (data_format L') (priv_dilation_rate L')
                (name L'))
             (\<lambda>outputs. Inr (case act L' of None \<Rightarrow> outputs | Some f \<Rightarrow> fn_call f outputs)))) \<and>
   (\<forall>bi. b_init L = Some bi \<longrightarrow>
      b L' = Some (bi [n_filter L]) \<and>
      (\<exists>shape. trainable_weights L' =
                 trainable_weights L @
                   [(''filters'', shape, W_init L shape),
                    (''biases'', [n_filter L], bi [n_filter L])]) \<and>
      (\<forall>rt x. \<exists>w. W L' = Some w \<and>
         fst (forward rt x L') =
           result_bind
             (conv2d rt (quantize_active rt (cabs rt x) (bitA L'))
                (quantize_weight rt w (bitW L'))
                (priv_strides L') (padding L') (data_format L') (priv_dilation_rate L')
                (name L'))
             (\<lambda>outputs.
                result_bind
                  (bias_add rt outputs (bi [n_filter L]) (data_format L') ''bias_add'')
                  (\<lambda>outputs.
                     Inr (case act L' of None \<Rightarrow> outputs | Some f \<Rightarrow> fn_call f outputs)))))"
proof -
  assume bl: "build shp L = (Inr (), L')"
  from build_returns_params[OF bl] obtain shape where
    w: "W L' = Some (W_init L shape)" and
    params: "case b_init L of
        None \<Rightarrow>
          b L' = b L \<and>
          trainable_weights L' = trainable_weights L @ [(''filters'', shape, W_init L shape)]
      | Some bi \<Rightarrow>
          b L' = Some (bi [n_filter L]) \<and>
          trainable_weights L' =
            trainable_weights L @
              [(''filters'', shape, W_init L shape),
               (''biases'', [n_filter L], bi [n_filter L])]"
    by blast
  have same: "b_init L' = b_init L" by (rule build_frame(11)[OF bl])
  show ?thesis
  proof (cases "b_init L")
    case None
    with params same w show ?thesis
      by (simp add: forward_result[OF w] result_bind_def)
  next
    case (Some bi)
    with params same w show ?thesis
      by (simp add: forward_result[OF w] result_bind_def attribute_def)
  qed
qed

theorem build_bias_tensor_witness:
  "(\<exists>L'. build (Some [8, 28, 28, 3]) (fresh (default_args\<lparr>b_init := None\<rparr>)) = (Inr (), L') \<and>
      b L' = None \<and>
      trainable_weights L' =
        [(''filters'', [3, 3, 3, 32], Initial ''truncated_normal'' [3, 3, 3, 32])] \<and>
      fst (forward graph_runtime (Placeholder ''x'') L') =
        Inr (Conv2d (Quantize_active (Cabs (Placeholder ''x'')) 3)
               (Quantize_weight (Initial ''truncated_normal'' [3, 3, 3, 32]) 1)
               [1, 1, 1, 1] ''SAME'' ''NHWC'' [1, 1, 1, 1] ''dorefa_cnn2d'')) \<and>
   (build (Some [8, 28, 28, 3]) (fresh default_args) = (Inr (), example_layer) \<and>
      b example_layer = Some (Initial ''constant'' [32]) \<and>
      trainable_weights example_layer =
        [(''filters'', [3, 3, 3, 32], Initial ''truncated_normal'' [3, 3, 3, 32]),
         (''biases'', [32], Initial ''constant'' [32])] \<and>
      fst (forward graph_runtime (Placeholder ''x'') example_layer) =
        Inr (Bias_add
               (Conv2d (Quantize_active (Cabs (Placeholder ''x'')) 3)
                  (Quantize_weight (Initial ''truncated_normal'' [3, 3, 3, 32]) 1)
                  [1, 1, 1, 1] ''SAME'' ''NHWC'' [1, 1, 1, 1] ''dorefa_cnn2d'')
               (Initial ''constant'' [32]) ''NHWC'' ''bias_add''))"
proof -
  let ?A = "fresh (default_args\<lparr>b_init := None\<rparr>)"
  let ?B = "fresh default_args"
  obtain A where A: "build (Some [8, 28, 28, 3]) ?A = (Inr (), A)"
    by (simp add: build_defs fresh_def default_args_def)
  have B: "build (Some [8, 28, 28, 3]) ?B = (Inr (), example_layer)"
    by (simp add: example_layer_def build_example)
  have argsA: "b_init ?A = None" "b ?A = None" "trainable_weights ?A = []"
    by (simp_all add: fresh_def default_args_def)
  have argsB: "b_init ?B = Some (Initial ''constant'')" "n_filter ?B = 32"
    by (simp_all add: fresh_def default_args_def)
  have fa: "W A = Some (Initial ''truncated_normal'' [3, 3, 3, 32])"
    "bitW A = 1" "bitA A = 3" "priv_strides A = [1, 1, 1, 1]" "padding A = ''SAME''"
    "data_format A = ''NHWC''" "priv_dilation_rate A = [1, 1, 1, 1]"
    "name A = ''dorefa_cnn2d''" "act A = None"
    "trainable_weights A =
       [(''filters'', [3, 3, 3, 32], Initial ''truncated_normal'' [3, 3, 3, 32])]"
    using A by (auto simp: build_defs fresh_def default_args_def)
  have fb: "W example_layer = Some (Initial ''truncated_normal'' [3, 3, 3, 32])"
    "bitW example_layer = 1" "bitA example_layer = 3"
    "priv_strides example_layer = [1, 1, 1, 1]" "padding example_layer = ''SAME''"
    "data_format example_layer = ''NHWC''" "priv_dilation_rate example_layer = [1, 1, 1, 1]"
    "name example_layer = ''dorefa_cnn2d''" "act example_layer = None"
    "trainable_weights example_layer =
       [(''filters'', [3, 3, 3, 32], Initial ''truncated_normal'' [3, 3, 3, 32]),
        (''biases'', [32], Initial ''constant'' [32])]"
    by (simp_all add: example_layer_def build_example)
  from build_bias_tensor[OF A] argsA have
    "b A = None \<and>
     (\<exists>w. W A = Some w \<and>
        fst (forward graph_runtime (Placeholder ''x'') A) =
          result_bind
            (conv2d graph_runtime
               (quantize_active graph_runtime (cabs graph_runtime (Placeholder ''x'')) (bitA A))
               (quantize_weight graph_runtime w (bitW A))
               (priv_strides A) (padding A) (data_format A) (priv_dilation_rate A) (name A))
            (\<lambda>outputs. Inr (case act A of None \<Rightarrow> outputs | Some f \<Rightarrow> fn_call f outputs)))"
    by simp
  then have "b A = None \<and>
      fst (forward graph_runtime (Placeholder ''x'') A) =
        Inr (Conv2d (Quantize_active (Cabs (Placeholder ''x'')) 3)
               (Quantize_weight (Initial ''truncated_normal'' [3, 3, 3, 32]) 1)
               [1, 1, 1, 1] ''SAME'' ''NHWC'' [1, 1, 1, 1] ''dorefa_cnn2d'')"
    by (auto simp: fa graph_runtime_def result_bind_def)
  moreover from build_bias_tensor[OF B] argsB have
    "b example_layer = Some (Initial ''constant'' [32]) \<and>
     (\<exists>w. W example_layer = Some w \<and>
        fst (forward graph_runtime (Placeholder ''x'') example_layer) =
          result_bind
            (conv2d graph_runtime
               (quantize_active graph_runtime (cabs graph_runtime (Placeholder ''x''))
                  (bitA example_layer))
               (quantize_weight graph_runtime w (bitW example_layer))
               (priv_strides example_layer) (padding example_layer)
               (data_format example_layer) (priv_dilation_rate example_layer)
               (name example_layer))
            (\<lambda>outputs.
               result_bind
                 (bias_add graph_runtime outputs (Initial ''constant'' [32])
                    (data_format example_layer) ''bias_add'')
                 (\<lambda>outputs.
                    Inr (case act example_layer of None \<Rightarrow> outputs
                         | Some f \<Rightarrow> fn_call f outputs))))"
    by simp
  then have "b example_layer = Some (Initial ''constant'' [32]) \<and>
      fst (forward graph_runtime (Placeholder ''x'') example_layer) =
        Inr (Bias_add
               (Conv2d (Quantize_active (Cabs (Placeholder ''x'')) 3)
                  (Quantize_weight (Initial ''truncated_normal'' [3, 3, 3, 32]) 1)
                  [1, 1, 1, 1] ''SAME'' ''NHWC'' [1, 1, 1, 1] ''dorefa_cnn2d'')
               (Initial ''constant'' [32]) ''NHWC'' ''bias_add'')"
    by (auto simp: fb graph_runtime_def result_bind_def)
  ultimately show ?thesis using A B fa(10) fb(10) by blast
qed

text \<open>
  C9, as the source has it. \<^verbatim>\<open>build\<close> has no rollback: it assigns \<^verbatim>\<open>data_format\<close> first
  and the other attributes one after another. So a call either completes (data format,
  strides, dilation, input channels, filter shape and parameters all resolved), or
  raises the invalid-\<^verbatim>\<open>data_format\<close> error with the layer unchanged, or, when
  \<^verbatim>\<open>data_format\<close> is valid and a later statement raises, leaves a layer that differs from
  the one before the call: \<^verbatim>\<open>data_format\<close> has already been rewritten to \<^verbatim>\<open>NHWC\<close> or
  \<^verbatim>\<open>NCHW\<close>.
\<close>

theorem build_outcomes:
  "build shp L = (r, L') \<Longrightarrow>
   (r = Inr () \<longrightarrow>
      (data_format L' = ''NHWC'' \<or> data_format L' = ''NCHW'') \<and>
      length (priv_strides L') = 4 \<and> length (priv_dilation_rate L') = 4 \<and>
      pre_channel L' \<noteq> None \<and> in_channels L' = pre_channel L' \<and>
      filter_shape L' \<noteq> None \<and> W L' \<noteq> None \<and> (b_init L \<noteq> None \<longrightarrow> b L' \<noteq> None)) \<and>
   (data_format L \<noteq> ''channels_last'' \<and> data_format L \<noteq> ''channels_first'' \<longrightarrow>
      r = Inl (Exception ''data_format should be either channels_last or channels_first'') \<and>
      L' = L) \<and>
   (r \<noteq> Inr () \<and> data_format L = ''channels_last'' \<longrightarrow>
      data_format L' = ''NHWC'' \<and> L' \<noteq> L) \<and>
   (r \<noteq> Inr () \<and> data_format L = ''channels_first'' \<longrightarrow>
      data_format L' = ''NCHW'' \<and> L' \<noteq> L)"
proof -
  assume bl: "build shp L = (r, L')"
  have completed: "r = Inr () \<longrightarrow>
      (data_format L' = ''NHWC'' \<or> data_format L' = ''NCHW'') \<and>
      length (priv_strides L') = 4 \<and> length (priv_dilation_rate L') = 4 \<and>
      pre_channel L' \<noteq> None \<and> in_channels L' = pre_channel L' \<and>
      filter_shape L' \<noteq> None \<and> W L' \<noteq> None \<and> (b_init L \<noteq> None \<longrightarrow> b L' \<noteq> None)"
  proof
    assume "r = Inr ()"
    with bl have ok: "build shp L = (Inr (), L')" by simp
    from build_returns_params[OF ok] have
      "filter_shape L' \<noteq> None \<and> W L' \<noteq> None \<and> (b_init L \<noteq> None \<longrightarrow> b L' \<noteq> None)"
      by (auto split: option.splits)
    with build_returns_format[OF ok] build_returns_shapes[OF ok]
    show "(data_format L' = ''NHWC'' \<or> data_format L' = ''NCHW'') \<and>
      length (priv_strides L') = 4 \<and> length (priv_dilation_rate L') = 4 \<and>
      pre_channel L' \<noteq> None \<and> in_channels L' = pre_channel L' \<and>
      filter_shape L' \<noteq> None \<and> W L' \<noteq> None \<and> (b_init L \<noteq> None \<longrightarrow> b L' \<noteq> None)"
      by blast
  qed
  have invalid: "data_format L \<noteq> ''channels_last'' \<and> data_format L \<noteq> ''channels_first'' \<longrightarrow>
      r = Inl (Exception ''data_format should be either channels_last or channels_first'') \<and>
      L' = L"
    using bl by (auto simp: build_invalid_format)
  have last: "data_format L = ''channels_last'' \<longrightarrow> data_format L' = ''NHWC''"
    using bl by (auto simp: build_defs split: if_splits sum.splits prod.splits option.splits)
  have first: "data_format L = ''channels_first'' \<longrightarrow> data_format L' = ''NCHW''"
    using bl by (auto simp: build_defs split: if_splits sum.splits prod.splits option.splits)
  from completed invalid last first show ?thesis by auto
qed

theorem build_outcomes_witness:
  "(build (Some [8, 28, 28, 3]) (fresh default_args) = (Inr (), example_layer) \<and>
      data_format example_layer = ''NHWC'' \<and> pre_channel example_layer = Some 3 \<and>
      W example_layer \<noteq> None \<and> b example_layer \<noteq> None) \<and>
   (build (Some [8, 28, 28, 3]) (fresh (default_args\<lparr>data_format := ''channels_middle''\<rparr>)) =
      (Inl (Exception ''data_format should be either channels_last or channels_first''),
       fresh (default_args\<lparr>data_format := ''channels_middle''\<rparr>))) \<and>
   (fst (build (Some []) (fresh default_args)) = Inl IndexError \<and>
      data_format (snd (build (Some []) (fresh default_args))) = ''NHWC'' \<and>
      snd (build (Some []) (fresh default_args)) \<noteq> fresh default_args) \<and>
   (fst (build (Some [16]) (fresh (default_args\<lparr>data_format := ''channels_first''\<rparr>))) =
      Inl IndexError \<and>
      data_format (snd (build (Some [16])
        (fresh (default_args\<lparr>data_format := ''channels_first''\<rparr>)))) = ''NCHW'' \<and>
      snd (build (Some [16]) (fresh (default_args\<lparr>data_format := ''channels_first''\<rparr>))) \<noteq>
        fresh (default_args\<lparr>data_format := ''channels_first''\<rparr>))"
proof -
  let ?M = "fresh (default_args\<lparr>data_format := ''channels_middle''\<rparr>)"
  let ?F = "fresh (default_args\<lparr>data_format := ''channels_first''\<rparr>)"
  have A: "build (Some [8, 28, 28, 3]) (fresh default_args) = (Inr (), example_layer)"
    by (simp add: example_layer_def build_example)
  obtain rm M where M: "build (Some [8, 28, 28, 3]) ?M = (rm, M)"
    by (cases "build (Some [8, 28, 28, 3]) ?M")
  obtain rl B where B: "build (Some []) (fresh default_args) = (rl, B)"
    by (cases "build (Some []) (fresh default_args)")
  obtain rf C where C: "build (Some [16]) ?F = (rf, C)"
    by (cases "build (Some [16]) ?F")
  have fmt: "data_format (fresh default_args) = ''channels_last''"
    "data_format ?M = ''channels_middle''" "data_format ?F = ''channels_first''"
    "b_init (fresh default_args) \<noteq> None"
    by (simp_all add: fresh_def default_args_def)
  have rl: "rl = Inl IndexError"
    using B by (simp add: build_defs fresh_def default_args_def)
  have rf: "rf = Inl IndexError"
    using C by (simp add: build_defs fresh_def default_args_def)
  have "data_format example_layer = ''NHWC'' \<and> pre_channel example_layer = Some 3 \<and>
      W example_layer \<noteq> None \<and> b example_layer \<noteq> None"
    using build_outcomes[OF A] fmt by (simp add: example_layer_def build_example)
  moreover have "rm = Inl (Exception ''data_format should be either channels_last or channels_first'')
      \<and> M = ?M"
    using build_outcomes[OF M] fmt by simp
  moreover have "data_format B = ''NHWC'' \<and> B \<noteq> fresh default_args"
    using build_outcomes[OF B] fmt rl by simp
  moreover have "data_format C = ''NCHW'' \<and> C \<noteq> ?F"
    using build_outcomes[OF C] fmt rf by simp
  ultimately show ?thesis using A M B C rl rf by simp
qed

theorem build_not_atomic_counterexample:
  "fst (build (Some [16]) (fresh (default_args\<lparr>data_format := ''channels_first''\<rparr>))) =
     Inl IndexError \<and>
   snd (build (Some [16]) (fresh (default_args\<lparr>data_format := ''channels_first''\<rparr>))) \<noteq>
     fresh (default_args\<lparr>data_format := ''channels_first''\<rparr>) \<and>
   data_format (snd (build (Some [16])
     (fresh (default_args\<lparr>data_format := ''channels_first''\<rparr>)))) = ''NCHW'' \<and>
   data_format (fresh (default_args\<lparr>data_format := ''channels_first''\<rparr>)) = ''channels_first''"
  by (simp add: build_defs fresh_def default_args_def)

subsection \<open>The constructor\<close>

text \<open>
  C4, as the source has it. A construction whose \<^verbatim>\<open>strides\<close> do not have exactly 2
  elements never returns a layer. \<^verbatim>\<open>__init__\<close> checks \<^verbatim>\<open>len(strides)\<close> last, after the
  eager build, the log line and the \<^verbatim>\<open>use_gemm\<close> guard. So once the eager build is not
  run (\<^verbatim>\<open>in_channels\<close> not given) or completes, and the log line has found the name of
  the activation, the error is the one of the \<^verbatim>\<open>use_gemm\<close> guard when \<^verbatim>\<open>use_gemm\<close> is
  selected, and the one of the length check, \<^verbatim>\<open>ValueError\<close> "len(strides) should be 2.",
  when it is not.
\<close>

theorem init_checks_strides:
  "length (strides args) \<noteq> 2 \<Longrightarrow>
   (\<exists>e. DorefaConv2d args = Inl e) \<and>
   ((\<not> truthy (in_channels args) \<or> fst (build None (fresh args)) = Inr ()) \<longrightarrow>
    (\<exists>message. activation_name (act args) = Inr message) \<longrightarrow>
      DorefaConv2d args =
        (if use_gemm args
         then Inl (Exception ''TODO. The current version use tf.matmul for inferencing.'')
         else Inl (ValueError ''len(strides) should be 2.'')))"
proof -
  assume len: "length (strides args) \<noteq> 2"
  then have "\<exists>e. DorefaConv2d args = Inl e" by (simp add: DorefaConv2d_fails)
  moreover have "DorefaConv2d args =
        (if use_gemm args
         then Inl (Exception ''TODO. The current version use tf.matmul for inferencing.'')
         else Inl (ValueError ''len(strides) should be 2.''))"
    if "\<not> truthy (in_channels args) \<or> fst (build None (fresh args)) = Inr ()"
      and "activation_name (act args) = Inr message" for message
    using DorefaConv2d_cases[OF that] len by simp
  ultimately show ?thesis by blast
qed

theorem init_checks_strides_witness:
  "length (strides (default_args\<lparr>strides := [1, 1, 1], in_channels := Some 3,
      act := Some \<lparr>fn_name = Some ''relu'', fn_call = Cabs\<rparr>\<rparr>)) \<noteq> 2 \<and>
   fst (build None (fresh (default_args\<lparr>strides := [1, 1, 1], in_channels := Some 3,
      act := Some \<lparr>fn_name = Some ''relu'', fn_call = Cabs\<rparr>\<rparr>))) = Inr () \<and>
   activation_name (act (default_args\<lparr>strides := [1, 1, 1], in_channels := Some 3,
      act := Some \<lparr>fn_name = Some ''relu'', fn_call = Cabs\<rparr>\<rparr>)) = Inr ''relu'' \<and>
   DorefaConv2d (default_args\<lparr>strides := [1, 1, 1], in_channels := Some 3,
      act := Some \<lparr>fn_name = Some ''relu'', fn_call = Cabs\<rparr>\<rparr>) =
     Inl (ValueError ''len(strides) should be 2.'') \<and>
   length (strides (default_args\<lparr>strides := [1, 1, 1], use_gemm := True\<rparr>)) \<noteq> 2 \<and>
   \<not> truthy (in_channels (default_args\<lparr>strides := [1, 1, 1], use_gemm := True\<rparr>)) \<and>
   activation_name (act (default_args\<lparr>strides := [1, 1, 1], use_gemm := True\<rparr>)) =
     Inr ''No Activation'' \<and>
   DorefaConv2d (default_args\<lparr>strides := [1, 1, 1], use_gemm := True\<rparr>) =
     Inl (Exception ''TODO. The current version use tf.matmul for inferencing.'')"
proof -
  let ?A = "default_args\<lparr>strides := [1, 1, 1], in_channels := Some 3,
      act := Some \<lparr>fn_name = Some ''relu'', fn_call = Cabs\<rparr>\<rparr>"
  let ?B = "default_args\<lparr>strides := [1, 1, 1], use_gemm := True\<rparr>"
  have a: "length (strides ?A) \<noteq> 2" "\<not> use_gemm ?A"
    "activation_name (act ?A) = Inr ''relu''"
    and b': "length (strides ?B) \<noteq> 2" "use_gemm ?B" "\<not> truthy (in_channels ?B)"
    "activation_name (act ?B) = Inr ''No Activation''"
    by (simp_all add: default_args_def truthy_def activation_name_def attribute_def)
  have ok: "fst (build None (fresh ?A)) = Inr ()"
    by (simp add: build_defs fresh_def default_args_def)
  from init_checks_strides[OF a(1)] a(2) a(3) ok
  have "DorefaConv2d ?A = Inl (ValueError ''len(strides) should be 2.'')" by auto
  moreover from init_checks_strides[OF b'(1)] b'(2) b'(3) b'(4)
  have "DorefaConv2d ?B =
      Inl (Exception ''TODO. The current version use tf.matmul for inferencing.'')" by auto
  ultimately show ?thesis using a b' ok by blast
qed

theorem init_checks_strides_counterexample:
  "length (strides (default_args\<lparr>strides := [1, 1, 1], use_gemm := True\<rparr>)) \<noteq> 2 \<and>
   DorefaConv2d (default_args\<lparr>strides := [1, 1, 1], use_gemm := True\<rparr>) =
     Inl (Exception ''TODO. The current version use tf.matmul for inferencing.'') \<and>
   DorefaConv2d (default_args\<lparr>strides := [1, 1, 1], use_gemm := True\<rparr>) \<noteq>
     Inl (ValueError ''len(strides) should be 2.'')"
  by (simp add: DorefaConv2d_def init_cases default_args_def truthy_def activation_name_def)




end
